theory Spec2Isabelle
  imports Complex_Main
begin

section \<open>Shared types\<close>

text \<open>
  Document identifiers are ObjectIds, handled by the routes through their string form
  (\<^verbatim>\<open>toString()\<close>, \<^verbatim>\<open>req.user.id\<close>, \<^verbatim>\<open>req.params\<close>). Dates are milliseconds since the
  epoch; every reading of the clock (\<^verbatim>\<open>new Date()\<close>, \<^verbatim>\<open>Date.now()\<close>) is the argument
  \<open>now\<close> of the operation that reads it.
\<close>

type_synonym objectId = string
type_synonym time = int

text \<open>
  The answers of the routes. Each constructor stands for the status code and message the
  handler sends:
  \<^item> \<open>Unauthorized\<close>: 401 of \<^verbatim>\<open>protect\<close>;
  \<^item> \<open>ValidationFailed\<close>: 400 with the validator's error array, and 400
    \<^verbatim>\<open>Missing payment verification data\<close> / \<^verbatim>\<open>Payment ID, amount, and reason are required\<close>;
  \<^item> \<open>NotFound\<close>: 404;
  \<^item> \<open>NotActive\<close>: 400 \<^verbatim>\<open>Auction is not active\<close>;
  \<^item> \<open>InvalidState\<close>: 400 \<^verbatim>\<open>Auction is not open for bidding\<close>,
    \<^verbatim>\<open>Cannot accept bids on auction that is not open\<close>, \<^verbatim>\<open>Only completed payments can be refunded\<close>;
  \<^item> \<open>SelfBidForbidden\<close>: 400 \<^verbatim>\<open>Cannot bid on your own auction\<close>;
  \<^item> \<open>NotOwner\<close>: 403 \<^verbatim>\<open>Not authorized to ...\<close>;
  \<^item> \<open>Forbidden\<close>: 403 \<^verbatim>\<open>Admin access required\<close> and the 403 of \<^verbatim>\<open>ownerOrAdmin\<close>;
  \<^item> \<open>BidNotFound\<close>, \<open>BidNotPending\<close>: 400 with the message thrown by \<^verbatim>\<open>acceptBid\<close>;
  \<^item> \<open>SignatureInvalid\<close>: 400 \<^verbatim>\<open>Invalid payment signature\<close>;
  \<^item> \<open>AlreadyProcessed\<close>: 400 \<^verbatim>\<open>Payment has already been processed\<close>;
  \<^item> \<open>AlreadyPurchased\<close>: 400 \<^verbatim>\<open>You have already purchased this app\<close>;
  \<^item> \<open>ServerError\<close>: every 500 sent from a \<^verbatim>\<open>catch\<close> block.
\<close>

datatype error =
    Unauthorized
  | ValidationFailed
  | NotFound
  | NotActive
  | InvalidState
  | SelfBidForbidden
  | NotOwner
  | Forbidden
  | BidNotFound
  | BidNotPending
  | SignatureInvalid
  | AlreadyProcessed
  | AlreadyPurchased
  | ServerError

text \<open>What the model methods throw, before a route turns it into an answer.\<close>

datatype exn =
    NotOpenForBidding
  | BidNotFoundExn
  | BidNotPendingExn
  | ValidationError

text \<open>\<^verbatim>\<open>Array.prototype.findIndex\<close>, with \<open>None\<close> for -1.\<close>

fun findIndex :: "('a \<Rightarrow> bool) \<Rightarrow> 'a list \<Rightarrow> nat option" where
  "findIndex P [] = None"
| "findIndex P (x # xs) = (if P x then Some 0 else map_option Suc (findIndex P xs))"

section \<open>The auction model (models/Auction.js)\<close>

datatype auctionStatus = Open | InProgress | Completed | Cancelled

datatype bidStatus = Pending | Accepted | Rejected

text \<open>
  A bid sub-document. \<open>bid_id\<close> is its \<^verbatim>\<open>_id\<close>, \<open>bid_status\<close> its \<^verbatim>\<open>status\<close>.
\<close>

record bid =
  bid_id :: objectId
  developer :: objectId
  amount :: real
  proposal :: string
  timeline :: int
  bid_status :: bidStatus
  submittedAt :: time

text \<open>
  The fields of an auction that the lifecycle reads or writes. The descriptive fields
  (title, description, platform, category, budget, deadline, requirements, features,
  tags, attachments) are never touched by the operations below; they live in the
  extension part of the record, so every statement holds with them present.
  \<open>expiresAt\<close> is optional here because a document built from a request body may lack it.
\<close>

record auction =
  buyer :: objectId
  status :: auctionStatus
  bids :: "bid list"
  acceptedBid :: "objectId option"
  isActive :: bool
  views :: nat
  expiresAt :: "time option"

text \<open>The plain object the bid route hands to \<^verbatim>\<open>addBid\<close>.\<close>

record bidData =
  bd_developer :: objectId
  bd_amount :: real
  bd_proposal :: string
  bd_timeline :: int

text \<open>
  \<^verbatim>\<open>isExpired\<close>: \<^verbatim>\<open>this.expiresAt < new Date()\<close>. With \<^verbatim>\<open>expiresAt\<close> undefined the
  comparison is against NaN and yields false.
\<close>

definition isExpired :: "time \<Rightarrow> 'a auction_scheme \<Rightarrow> bool" where
  "isExpired now a = (case expiresAt a of None \<Rightarrow> False | Some t \<Rightarrow> t < now)"

definition isOpen :: "time \<Rightarrow> 'a auction_scheme \<Rightarrow> bool" where
  "isOpen now a = (status a = Open \<and> \<not> isExpired now a)"

text \<open>
  Saving a document. Mongoose validates the document first (its built-in validation hook
  is put in front of the schema's own \<^verbatim>\<open>pre('save')\<close> hooks, and the schema does not
  switch \<^verbatim>\<open>validateBeforeSave\<close> off), then runs the schema's hook, then writes.
  The validators of the paths in the record: \<^verbatim>\<open>expiresAt\<close> is required, and of every
  bid \<^verbatim>\<open>amount\<close> has \<^verbatim>\<open>min: 0\<close> and \<^verbatim>\<open>proposal\<close> is required, which for a
  string excludes the empty one. The required \<^verbatim>\<open>developer\<close>, \<^verbatim>\<open>amount\<close> and
  \<^verbatim>\<open>timeline\<close> of a bid are always present in the record.
\<close>

definition validBid :: "bid \<Rightarrow> bool" where
  "validBid b = (0 \<le> amount b \<and> proposal b \<noteq> [])"

definition validate :: "'a auction_scheme \<Rightarrow> bool" where
  "validate a = (expiresAt a \<noteq> None \<and> list_all validBid (bids a))"

definition preSave :: "time \<Rightarrow> 'a auction_scheme \<Rightarrow> 'a auction_scheme" where
  "preSave now a =
     (if expiresAt a = None
      then a\<lparr>expiresAt := Some (now + 30 * 24 * 60 * 60 * 1000)\<rparr>
      else a)"

definition save :: "time \<Rightarrow> 'a auction_scheme \<Rightarrow> exn + 'a auction_scheme" where
  "save now a = (if \<not> validate a then Inl ValidationError else Inr (preSave now a))"

text \<open>
  \<^verbatim>\<open>this.bids.push(bidData)\<close>: the sub-document gets the schema defaults
  (\<^verbatim>\<open>status: 'pending'\<close>, \<^verbatim>\<open>submittedAt: Date.now\<close>) and a generated \<^verbatim>\<open>_id\<close>, the
  argument \<open>fresh\<close>.
\<close>

definition newBid :: "objectId \<Rightarrow> time \<Rightarrow> bidData \<Rightarrow> bid" where
  "newBid fresh now bd =
     \<lparr>bid_id = fresh, developer = bd_developer bd, amount = bd_amount bd,
      proposal = bd_proposal bd, timeline = bd_timeline bd, bid_status = Pending,
      submittedAt = now\<rparr>"

text \<open>
  \<^verbatim>\<open>this.bids[i] = { ...this.bids[i], ...bidData, submittedAt: new Date() }\<close>.
  The stored bid is a Mongoose sub-document: its schema paths are accessors, not own
  properties, so the spread of it contributes no schema field. The object assigned has
  the fields of \<^verbatim>\<open>bidData\<close> and the new \<^verbatim>\<open>submittedAt\<close>; the array casts it to a
  new sub-document in the same slot, with a generated \<^verbatim>\<open>_id\<close> (the argument
  \<open>fresh\<close>) and the default \<^verbatim>\<open>status: 'pending'\<close>.
\<close>

definition spreadBid :: "objectId \<Rightarrow> bid \<Rightarrow> bidData \<Rightarrow> time \<Rightarrow> bid" where
  "spreadBid fresh old bd now =
     \<lparr>bid_id = fresh, developer = bd_developer bd, amount = bd_amount bd,
      proposal = bd_proposal bd, timeline = bd_timeline bd, bid_status = Pending,
      submittedAt = now\<rparr>"

definition addBid ::
  "time \<Rightarrow> objectId \<Rightarrow> bidData \<Rightarrow> 'a auction_scheme \<Rightarrow> exn + 'a auction_scheme" where
  "addBid now fresh bd a =
     (if \<not> isOpen now a then Inl NotOpenForBidding
      else case findIndex (\<lambda>b. developer b = bd_developer bd) (bids a) of
             Some i \<Rightarrow>
               save now (a\<lparr>bids := (bids a)[i := spreadBid fresh (bids a ! i) bd now]\<rparr>)
           | None \<Rightarrow> save now (a\<lparr>bids := bids a @ [newBid fresh now bd]\<rparr>))"

text \<open>
  \<^verbatim>\<open>acceptBid\<close>: \<^verbatim>\<open>this.bids.id(bidId)\<close> is the first bid with that \<^verbatim>\<open>_id\<close>; the
  \<^verbatim>\<open>forEach\<close> rejects every bid whose \<^verbatim>\<open>_id\<close> differs from \<^verbatim>\<open>bidId\<close>; the bid found
  first is then accepted through its reference, so at its own index.
\<close>

definition rejectOthers :: "objectId \<Rightarrow> bid list \<Rightarrow> bid list" where
  "rejectOthers bidId bs =
     map (\<lambda>b. if bid_id b \<noteq> bidId then b\<lparr>bid_status := Rejected\<rparr> else b) bs"

definition acceptBid ::
  "time \<Rightarrow> objectId \<Rightarrow> 'a auction_scheme \<Rightarrow> exn + 'a auction_scheme" where
  "acceptBid now bidId a =
     (case findIndex (\<lambda>b. bid_id b = bidId) (bids a) of
        None \<Rightarrow> Inl BidNotFoundExn
      | Some i \<Rightarrow>
          if bid_status (bids a ! i) \<noteq> Pending then Inl BidNotPendingExn
          else
            let bs = rejectOthers bidId (bids a);
                bs' = bs[i := (bs ! i)\<lparr>bid_status := Accepted\<rparr>]
            in save now (a\<lparr>bids := bs', acceptedBid := Some (developer (bs ! i)),
                           status := InProgress\<rparr>))"


section \<open>The auction routes (routes/auctions.js) and their guards (middleware/auth.js)\<close>

text \<open>
  The account \<^verbatim>\<open>protect\<close> attaches to the request as \<^verbatim>\<open>req.user\<close>, with the fields
  the guards and handlers read: its id, \<^verbatim>\<open>role\<close> and \<^verbatim>\<open>isActive\<close>.
\<close>

record account =
  acc_id :: objectId
  acc_role :: string
  acc_isActive :: bool

text \<open>
  What one function of an Express handler chain does with a request: it calls
  \<^verbatim>\<open>next()\<close>, or it sends an answer, or it does neither, and then the request is never
  answered.
\<close>

datatype 'a step = Next 'a | Respond error | NoReply

text \<open>
  \<^verbatim>\<open>protect\<close>. The argument is the account the bearer token decodes to: \<open>None\<close> when
  the header is missing, the token does not verify or the account is gone.
\<close>

definition protect :: "account option \<Rightarrow> account step" where
  "protect tok =
     (case tok of
        None \<Rightarrow> Respond Unauthorized
      | Some u \<Rightarrow> if \<not> acc_isActive u then Respond Unauthorized else Next u)"

text \<open>
  \<^verbatim>\<open>ownerOrAdmin\<close> is a factory: given a resource model it returns the middleware.
  The resource model is its \<^verbatim>\<open>findById\<close>, returning the \<^verbatim>\<open>developer\<close> field of the
  resource found (\<open>Some None\<close> when the resource has no such field: the
  \<^verbatim>\<open>toString()\<close> on it throws, and the \<^verbatim>\<open>catch\<close> answers 500).
\<close>

definition ownerOrAdmin ::
  "(objectId \<Rightarrow> objectId option option) \<Rightarrow> account \<Rightarrow> objectId \<Rightarrow> unit step" where
  "ownerOrAdmin resourceModel u rid =
     (case resourceModel rid of
        None \<Rightarrow> Respond NotFound
      | Some dev \<Rightarrow>
          if acc_role u = ''admin'' then Next ()
          else case dev of
                 None \<Rightarrow> Respond ServerError
               | Some d \<Rightarrow> if d = acc_id u then Next () else Respond Forbidden)"

text \<open>
  What a route registration puts in its handler chain: a middleware, as
  \<^verbatim>\<open>ownerOrAdmin(App)\<close> in routes/apps.js, or a factory of middlewares, as
  \<^verbatim>\<open>ownerOrAdmin\<close> itself in the auction routes. Express calls whatever is mounted
  with \<^verbatim>\<open>(req, res, next)\<close> and ignores what the call returns. A middleware called so
  does its step. A factory called so takes the request for its resource model and returns
  the middleware it builds without running it: no answer is sent and \<^verbatim>\<open>next\<close> is not
  called.
\<close>

datatype mounted =
    Middleware "account \<Rightarrow> objectId \<Rightarrow> unit step"
  | Factory "(objectId \<Rightarrow> objectId option option) \<Rightarrow> account \<Rightarrow> objectId \<Rightarrow> unit step"

fun callMounted :: "mounted \<Rightarrow> account \<Rightarrow> objectId \<Rightarrow> unit step" where
  "callMounted (Middleware m) u rid = m u rid"
| "callMounted (Factory f) u rid = NoReply"

text \<open>
  The body of a bid request after \<^verbatim>\<open>validateBid\<close>: \<open>br_valid\<close> is
  \<^verbatim>\<open>errors.isEmpty()\<close>.
\<close>

record bidRequest =
  br_valid :: bool
  br_amount :: real
  br_proposal :: string
  br_timeline :: int

fun bidExn :: "exn \<Rightarrow> error" where
  "bidExn NotOpenForBidding = InvalidState"
| "bidExn e = ServerError"

text \<open>
  The handler of \<^verbatim>\<open>POST /:id/bid\<close>. \<open>found\<close> is what
  \<^verbatim>\<open>Auction.findById(req.params.id)\<close> returns (a malformed id ends in the same 404),
  \<open>uid\<close> is \<^verbatim>\<open>req.user.id\<close>. The result is the error sent, or the auction as saved.
\<close>

definition submitBid ::
  "time \<Rightarrow> objectId \<Rightarrow> 'a auction_scheme option \<Rightarrow> objectId \<Rightarrow> bidRequest
   \<Rightarrow> error + 'a auction_scheme" where
  "submitBid now fresh found uid req =
     (if \<not> br_valid req then Inl ValidationFailed
      else case found of
        None \<Rightarrow> Inl NotFound
      | Some a \<Rightarrow>
          if \<not> isActive a then Inl NotActive
          else if status a \<noteq> Open then Inl InvalidState
          else if buyer a = uid then Inl SelfBidForbidden
          else case addBid now fresh
                      \<lparr>bd_developer = uid, bd_amount = br_amount req,
                       bd_proposal = br_proposal req, bd_timeline = br_timeline req\<rparr> a of
                 Inl e \<Rightarrow> Inl (bidExn e)
               | Inr a' \<Rightarrow> Inr a')"

text \<open>
  A sequence of bid requests against one stored auction. A request that fails leaves the
  stored auction as it was.
\<close>

type_synonym bidCall = "time \<times> objectId \<times> objectId \<times> bidRequest"

definition bidStep :: "'a auction_scheme \<Rightarrow> bidCall \<Rightarrow> 'a auction_scheme" where
  "bidStep a c =
     (case c of (now, fresh, uid, req) \<Rightarrow>
        (case submitBid now fresh (Some a) uid req of Inl e \<Rightarrow> a | Inr a' \<Rightarrow> a'))"


fun acceptExn :: "exn \<Rightarrow> error" where
  "acceptExn BidNotFoundExn = BidNotFound"
| "acceptExn BidNotPendingExn = BidNotPending"
| "acceptExn e = ServerError"

text \<open>The handler of \<^verbatim>\<open>PUT /:id/bid/:bidId/accept\<close>.\<close>

definition acceptBidHandler ::
  "time \<Rightarrow> 'a auction_scheme option \<Rightarrow> objectId \<Rightarrow> objectId \<Rightarrow> error + 'a auction_scheme" where
  "acceptBidHandler now found uid bidId =
     (case found of
        None \<Rightarrow> Inl NotFound
      | Some a \<Rightarrow>
          if buyer a \<noteq> uid then Inl NotOwner
          else if status a \<noteq> Open then Inl InvalidState
          else case acceptBid now bidId a of
                 Inl e \<Rightarrow> Inl (acceptExn e)
               | Inr a' \<Rightarrow> Inr a')"

text \<open>
  The route as registered:
  \<^verbatim>\<open>router.put('/:id/bid/:bidId/accept', protect, ownerOrAdmin, handler)\<close>.
  \<open>rid\<close> is \<^verbatim>\<open>req.params.id\<close>, \<open>found\<close> the auction stored under it. \<open>None\<close> is a
  request that gets no answer.
\<close>

definition acceptBidRoute ::
  "account option \<Rightarrow> time \<Rightarrow> objectId \<Rightarrow> 'a auction_scheme option \<Rightarrow> objectId
   \<Rightarrow> (error + 'a auction_scheme) option" where
  "acceptBidRoute tok now rid found bidId =
     (case protect tok of
        Respond e \<Rightarrow> Some (Inl e)
      | NoReply \<Rightarrow> None
      | Next u \<Rightarrow>
          (case callMounted (Factory ownerOrAdmin) u rid of
             Respond e \<Rightarrow> Some (Inl e)
           | NoReply \<Rightarrow> None
           | Next x \<Rightarrow> Some (acceptBidHandler now found (acc_id u) bidId)))"

text \<open>
  The handler of \<^verbatim>\<open>POST /\<close> (create): the document is built from the validated body
  with \<^verbatim>\<open>buyer\<close> overwritten, and saved; a failing save is answered 500.
\<close>

definition createAuction ::
  "time \<Rightarrow> objectId \<Rightarrow> bool \<Rightarrow> 'a auction_scheme \<Rightarrow> error + 'a auction_scheme" where
  "createAuction now uid valid body =
     (if \<not> valid then Inl ValidationFailed
      else case save now (body\<lparr>buyer := uid\<rparr>) of
             Inl e \<Rightarrow> Inl ServerError
           | Inr a \<Rightarrow> Inr a)"

section \<open>The payment model (models/Payment.js)\<close>

datatype paymentStatus = PaymentPending | PaymentCompleted | PaymentFailed | PaymentRefunded

record payment =
  pay_id :: objectId
  pay_user :: objectId
  pay_app :: objectId
  pay_auction :: "objectId option"
  pay_amount :: real
  razorpayOrderId :: string
  razorpayPaymentId :: "string option"
  razorpaySignature :: "string option"
  pay_status :: paymentStatus
  refundAmount :: real
  refundReason :: "string option"
  refundedAt :: "time option"
  completedAt :: "time option"

definition markCompleted :: "time \<Rightarrow> string \<Rightarrow> string \<Rightarrow> payment \<Rightarrow> payment" where
  "markCompleted now paymentId signature p =
     p\<lparr>razorpayPaymentId := Some paymentId, razorpaySignature := Some signature,
       pay_status := PaymentCompleted, completedAt := Some now\<rparr>"

definition processRefund :: "time \<Rightarrow> real \<Rightarrow> string \<Rightarrow> payment \<Rightarrow> payment" where
  "processRefund now amt reason p =
     p\<lparr>pay_status := PaymentRefunded, refundAmount := amt, refundReason := Some reason,
       refundedAt := Some now\<rparr>"

definition findByOrderId :: "string \<Rightarrow> payment list \<Rightarrow> nat option" where
  "findByOrderId orderId ps = findIndex (\<lambda>p. razorpayOrderId p = orderId) ps"

definition findById :: "objectId \<Rightarrow> payment list \<Rightarrow> nat option" where
  "findById pid ps = findIndex (\<lambda>p. pay_id p = pid) ps"

section \<open>The payment routes (routes/payments.js)\<close>

text \<open>
  Modelled from the spec: the User schema (models/User.js) is not among the sources. The
  purchase history of a user is the list of item references that the specification
  describes (the purchased item is registered against it if not already present) and that
  the verify handler works on: searched by value with \<^verbatim>\<open>includes\<close>, extended with
  \<^verbatim>\<open>push\<close>.
\<close>

record user =
  purchases :: "objectId list"

text \<open>Of an item (models/App.js) the handlers write the download counter only.\<close>

record app =
  downloads :: nat

text \<open>
  The collections, and the gateway's side: the orders and refunds it was asked for
  (amounts in paise).
\<close>

record store =
  payments :: "payment list"
  users :: "objectId \<Rightarrow> user option"
  apps :: "objectId \<Rightarrow> app option"
  gatewayOrders :: "(string \<times> int) list"
  gatewayRefunds :: "(string option \<times> int) list"

text \<open>
  \<^verbatim>\<open>Math.round(amount * 100)\<close> is computed on doubles, and amounts are reals here. The
  conversion to paise is therefore the argument \<open>toPaise\<close> of the two handlers that call
  the gateway.
\<close>

record orderRequest =
  or_valid :: bool
  or_appId :: objectId
  or_amount :: real
  or_auctionId :: "objectId option"

definition newPayment :: "objectId \<Rightarrow> objectId \<Rightarrow> orderRequest \<Rightarrow> string \<Rightarrow> payment" where
  "newPayment fresh uid req orderId =
     \<lparr>pay_id = fresh, pay_user = uid, pay_app = or_appId req, pay_auction = or_auctionId req,
      pay_amount = or_amount req, razorpayOrderId = orderId, razorpayPaymentId = None,
      razorpaySignature = None, pay_status = PaymentPending, refundAmount = 0,
      refundReason = None, refundedAt = None, completedAt = None\<rparr>"

definition completedFor :: "objectId \<Rightarrow> objectId \<Rightarrow> payment list \<Rightarrow> payment list" where
  "completedFor uid appId ps =
     filter (\<lambda>p. pay_user p = uid \<and> pay_app p = appId \<and> pay_status p = PaymentCompleted) ps"

text \<open>
  The handler of \<^verbatim>\<open>POST /create-order\<close>. \<open>gw\<close> is the outcome of
  \<^verbatim>\<open>razorpay.orders.create\<close>: the id of the order created, or \<open>None\<close> when the call
  throws. \<open>fresh\<close> is the \<^verbatim>\<open>_id\<close> generated for the payment record.
  \<^verbatim>\<open>Payment.findOne\<close> with user, app and status completed finds a record exactly when
  \<open>completedFor\<close> is not empty. The insert fails on
  the unique index of \<^verbatim>\<open>razorpayOrderId\<close> when the order id is already stored. The
  answer carries the order id, the order amount and the payment id.
\<close>

definition createOrder ::
  "(real \<Rightarrow> int) \<Rightarrow> string option \<Rightarrow> objectId \<Rightarrow> objectId \<Rightarrow> orderRequest \<Rightarrow> store
   \<Rightarrow> (error + string \<times> int \<times> objectId) \<times> store" where
  "createOrder toPaise gw fresh uid req s =
     (if \<not> or_valid req then (Inl ValidationFailed, s)
      else case apps s (or_appId req) of
        None \<Rightarrow> (Inl NotFound, s)
      | Some ap \<Rightarrow>
          (case completedFor uid (or_appId req) (payments s) of
             p # ps \<Rightarrow> (Inl AlreadyPurchased, s)
           | [] \<Rightarrow>
               (case gw of
                  None \<Rightarrow> (Inl ServerError, s)
                | Some orderId \<Rightarrow>
                    let s1 = s\<lparr>gatewayOrders :=
                                 gatewayOrders s @ [(orderId, toPaise (or_amount req))]\<rparr>
                    in if findByOrderId orderId (payments s) \<noteq> None then (Inl ServerError, s1)
                       else (Inr (orderId, toPaise (or_amount req), fresh),
                             s1\<lparr>payments :=
                                  payments s @ [newPayment fresh uid req orderId]\<rparr>))))"

text \<open>
  The body of a verify request. A field that is missing and a field that is the empty
  string are both falsy, and are both the empty string here.
\<close>

record verifyRequest =
  vr_orderId :: string
  vr_paymentId :: string
  vr_signature :: string

text \<open>
  The handler of \<^verbatim>\<open>POST /verify\<close>. \<open>hmac\<close> is
  \<^verbatim>\<open>crypto.createHmac('sha256', key).update(body).digest('hex')\<close> as a function of key
  and body, \<open>secret\<close> is \<^verbatim>\<open>RAZORPAY_KEY_SECRET\<close>. When the account can no longer be
  loaded after the payment was marked, the dereference throws and the \<^verbatim>\<open>catch\<close>
  answers 500, the payment staying completed.
\<close>

definition addPurchase :: "objectId \<Rightarrow> objectId \<Rightarrow> user \<Rightarrow> store \<Rightarrow> store" where
  "addPurchase uid appId u s =
     (if appId \<in> set (purchases u) then s
      else s\<lparr>users := (users s)(uid \<mapsto> u\<lparr>purchases := purchases u @ [appId]\<rparr>)\<rparr>)"

definition incrementDownloads :: "objectId \<Rightarrow> store \<Rightarrow> store" where
  "incrementDownloads appId s =
     (case apps s appId of
        None \<Rightarrow> s
      | Some ap \<Rightarrow> s\<lparr>apps := (apps s)(appId \<mapsto> ap\<lparr>downloads := downloads ap + 1\<rparr>)\<rparr>)"

definition verify ::
  "(string \<Rightarrow> string \<Rightarrow> string) \<Rightarrow> string \<Rightarrow> time \<Rightarrow> objectId \<Rightarrow> verifyRequest \<Rightarrow> store
   \<Rightarrow> (error + payment) \<times> store" where
  "verify hmac secret now uid req s =
     (if vr_orderId req = [] \<or> vr_paymentId req = [] \<or> vr_signature req = []
      then (Inl ValidationFailed, s)
      else if hmac secret (vr_orderId req @ ''|'' @ vr_paymentId req) \<noteq> vr_signature req
      then (Inl SignatureInvalid, s)
      else case findByOrderId (vr_orderId req) (payments s) of
        None \<Rightarrow> (Inl NotFound, s)
      | Some i \<Rightarrow>
          let p = payments s ! i in
          if pay_user p \<noteq> uid then (Inl NotOwner, s)
          else if pay_status p \<noteq> PaymentPending then (Inl AlreadyProcessed, s)
          else
            let p' = markCompleted now (vr_paymentId req) (vr_signature req) p;
                s1 = s\<lparr>payments := (payments s)[i := p']\<rparr>
            in case users s1 uid of
                 None \<Rightarrow> (Inl ServerError, s1)
               | Some u \<Rightarrow>
                   (Inr p', incrementDownloads (pay_app p') (addPurchase uid (pay_app p') u s1)))"

record refundRequest =
  rr_paymentId :: string
  rr_amount :: real
  rr_reason :: string

text \<open>
  The handler of \<^verbatim>\<open>POST /refund\<close>. \<open>remote\<close> is the outcome of
  \<^verbatim>\<open>razorpay.payments.refund\<close>: the refund id, or \<open>None\<close> when the call throws.
  The payment id is taken to be a well-formed ObjectId. The answer carries the refund id
  and the amount.
\<close>

definition refund ::
  "(real \<Rightarrow> int) \<Rightarrow> string option \<Rightarrow> time \<Rightarrow> account \<Rightarrow> refundRequest \<Rightarrow> store
   \<Rightarrow> (error + string \<times> real) \<times> store" where
  "refund toPaise remote now u req s =
     (if acc_role u \<noteq> ''admin'' then (Inl Forbidden, s)
      else if rr_paymentId req = [] \<or> rr_amount req = 0 \<or> rr_reason req = []
      then (Inl ValidationFailed, s)
      else case findById (rr_paymentId req) (payments s) of
        None \<Rightarrow> (Inl NotFound, s)
      | Some i \<Rightarrow>
          let p = payments s ! i in
          if pay_status p \<noteq> PaymentCompleted then (Inl InvalidState, s)
          else case remote of
                 None \<Rightarrow> (Inl ServerError, s)
               | Some refundId \<Rightarrow>
                   (Inr (refundId, rr_amount req),
                    s\<lparr>payments := (payments s)[i := processRefund now (rr_amount req) (rr_reason req) p],
                      gatewayRefunds :=
                        gatewayRefunds s @ [(razorpayPaymentId p, toPaise (rr_amount req))]\<rparr>))"

section \<open>Scenarios\<close>

text \<open>An open auction with two pending bids and one rejected bid.\<close>

definition bidA :: bid where
  "bidA = \<lparr>bid_id = ''b1'', developer = ''devA'', amount = 250, proposal = ''a first proposal: native screens, a REST client and unit tests'',
           timeline = 10, bid_status = Pending, submittedAt = 5\<rparr>"

definition bidB :: bid where
  "bidB = \<lparr>bid_id = ''b2'', developer = ''devB'', amount = 400, proposal = ''a second proposal: a cross-platform build with store release'',
           timeline = 30, bid_status = Pending, submittedAt = 6\<rparr>"

definition bidC :: bid where
  "bidC = \<lparr>bid_id = ''b3'', developer = ''devC'', amount = 120, proposal = ''a third proposal: a web wrapper with offline cache and support'',
           timeline = 7, bid_status = Rejected, submittedAt = 7\<rparr>"

definition threeBids :: auction where
  "threeBids = \<lparr>buyer = ''buyer1'', status = Open, bids = [bidA, bidB, bidC],
     acceptedBid = None, isActive = True, views = 0, expiresAt = Some 2000\<rparr>"

text \<open>
  The scenario of the specification: an open auction without bids; developer A bids 300 with
  a timeline of 14 days, then bids again 250 with a timeline of 10 days. The second bid
  takes the slot of the first, as a new sub-document.
\<close>

definition emptyAuction :: auction where
  "emptyAuction = \<lparr>buyer = ''buyer1'', status = Open, bids = [],
     acceptedBid = None, isActive = True, views = 0, expiresAt = Some 2000\<rparr>"

definition firstBid :: bidRequest where
  "firstBid = \<lparr>br_valid = True, br_amount = 300, br_proposal = ''a native build for both platforms with tests and store release'', br_timeline = 14\<rparr>"


definition devABid300 :: bid where
  "devABid300 = \<lparr>bid_id = ''b1'', developer = ''devA'', amount = 300, proposal = ''a native build for both platforms with tests and store release'',
      timeline = 14, bid_status = Pending, submittedAt = 1000\<rparr>"


text \<open>
  The conversion to paise used in the scenarios: rounding to the nearest integer, halves
  upwards. On the amount 199 of the scenarios the product 19900 is exact in doubles as
  well, and \<^verbatim>\<open>Math.round\<close> returns it.
\<close>

definition scenarioPaise :: "real \<Rightarrow> int" where
  "scenarioPaise amt = \<lfloor>amt * 100 + 1 / 2\<rfloor>"

text \<open>
  A stand-in for the digest in the scenarios. The handler only compares the digest with
  the signature supplied, so any function of key and body serves.
\<close>

definition stubHmac :: "string \<Rightarrow> string \<Rightarrow> string" where
  "stubHmac key body = key @ ''/'' @ body"

text \<open>
  The payment scenario of the specification: an item priced 199.00 INR, ordered by user u1
  (remote order \<^verbatim>\<open>order_1\<close>, 19900 paise), then verified with payment id
  \<^verbatim>\<open>pay_1\<close>.
\<close>

definition order199 :: orderRequest where
  "order199 = \<lparr>or_valid = True, or_appId = ''app1'', or_amount = 199, or_auctionId = None\<rparr>"

definition pendingPayment :: payment where
  "pendingPayment = newPayment ''p1'' ''u1'' order199 ''order_1''"

definition payStore :: store where
  "payStore = \<lparr>payments = [pendingPayment],
      users = [''u1'' \<mapsto> \<lparr>purchases = []\<rparr>],
      apps = [''app1'' \<mapsto> \<lparr>downloads = 0\<rparr>],
      gatewayOrders = [(''order_1'', 19900)], gatewayRefunds = []\<rparr>"

definition verifyReq :: verifyRequest where
  "verifyReq = \<lparr>vr_orderId = ''order_1'', vr_paymentId = ''pay_1'',
      vr_signature = ''secret/order_1|pay_1''\<rparr>"

definition forgedReq :: verifyRequest where
  "forgedReq = \<lparr>vr_orderId = ''order_1'', vr_paymentId = ''pay_1'',
      vr_signature = ''secret/order_1|pay_2''\<rparr>"

definition completedPayment :: payment where
  "completedPayment = markCompleted 1000 ''pay_1'' ''secret/order_1|pay_1'' pendingPayment"

definition payStoreVerified :: store where
  "payStoreVerified = \<lparr>payments = [completedPayment],
      users = [''u1'' \<mapsto> \<lparr>purchases = [''app1'']\<rparr>],
      apps = [''app1'' \<mapsto> \<lparr>downloads = 1\<rparr>],
      gatewayOrders = [(''order_1'', 19900)], gatewayRefunds = []\<rparr>"

definition emptyStore :: store where
  "emptyStore = \<lparr>payments = [], users = Map.empty, apps = Map.empty,
      gatewayOrders = [], gatewayRefunds = []\<rparr>"

text \<open>An administrator refunds the verified payment of 199.00 INR.\<close>

definition adminAccount :: account where
  "adminAccount = \<lparr>acc_id = ''admin1'', acc_role = ''admin'', acc_isActive = True\<rparr>"

definition refundReq :: refundRequest where
  "refundReq = \<lparr>rr_paymentId = ''p1'', rr_amount = 199, rr_reason = ''duplicate charge''\<rparr>"

definition refundedPayment :: payment where
  "refundedPayment = processRefund 3000 199 ''duplicate charge'' completedPayment"

definition payStoreRefunded :: store where
  "payStoreRefunded = payStoreVerified\<lparr>payments := [refundedPayment],
      gatewayRefunds := [(Some ''pay_1'', 19900)]\<rparr>"

text \<open>
  Two auctions that differ from the empty one in their expiry only: one expires at the very
  millisecond the bid arrives (1000), the other one millisecond before.
\<close>

definition expiringNow :: auction where
  "expiringNow = emptyAuction\<lparr>expiresAt := Some 1000\<rparr>"

definition expiredOpen :: auction where
  "expiredOpen = emptyAuction\<lparr>expiresAt := Some 999\<rparr>"

text \<open>The buyer of the auction with three bids, and that auction once in progress.\<close>

definition buyerAccount :: account where
  "buyerAccount = \<lparr>acc_id = ''buyer1'', acc_role = ''user'', acc_isActive = True\<rparr>"

definition inProgressAuction :: auction where
  "inProgressAuction = threeBids\<lparr>status := InProgress\<rparr>"

text \<open>An auction document built from a request body that has no \<^verbatim>\<open>expiresAt\<close>.\<close>

definition noExpiry :: auction where
  "noExpiry = \<lparr>buyer = '''', status = Open, bids = [], acceptedBid = None, isActive = True,
      views = 0, expiresAt = None\<rparr>"

text \<open>
  A shop with one user and one item. The user creates two orders for the item while
  neither is paid, and then verifies both.
\<close>

definition shopStore :: store where
  "shopStore = \<lparr>payments = [],
      users = [''u1'' \<mapsto> \<lparr>purchases = []\<rparr>],
      apps = [''app1'' \<mapsto> \<lparr>downloads = 0\<rparr>],
      gatewayOrders = [], gatewayRefunds = []\<rparr>"

definition verifyReqB :: verifyRequest where
  "verifyReqB = \<lparr>vr_orderId = ''order_2'', vr_paymentId = ''pay_2'',
      vr_signature = ''secret/order_2|pay_2''\<rparr>"

definition twoOrders :: store where
  "twoOrders =
     snd (createOrder scenarioPaise (Some ''order_2'') ''p2'' ''u1'' order199
       (snd (createOrder scenarioPaise (Some ''order_1'') ''p1'' ''u1'' order199 shopStore)))"

definition paidTwice :: store where
  "paidTwice =
     snd (verify stubHmac ''secret'' 2000 ''u1'' verifyReqB
       (snd (verify stubHmac ''secret'' 1000 ''u1'' verifyReq twoOrders)))"








text \<open>
  Verify requests that lack a field: one without payment id, one without signature.
\<close>

definition noPaymentIdReq :: verifyRequest where
  "noPaymentIdReq = \<lparr>vr_orderId = ''order_1'', vr_paymentId = [],
      vr_signature = ''secret/order_1|pay_2''\<rparr>"

definition noSignatureReq :: verifyRequest where
  "noSignatureReq = \<lparr>vr_orderId = ''order_1'', vr_paymentId = ''pay_1'', vr_signature = []\<rparr>"

section \<open>Facts about the auction model\<close>

lemma findIndex_Some:
  "findIndex P xs = Some i \<Longrightarrow> i < length xs \<and> P (xs ! i) \<and> (\<forall>j<i. \<not> P (xs ! j))"
proof (induction xs arbitrary: i)
  case Nil
  then show ?case by simp
next
  case (Cons x xs)
  show ?case
  proof (cases "P x")
    case True
    with Cons.prems show ?thesis by simp
  next
    case False
    with Cons.prems obtain k where k: "findIndex P xs = Some k" "i = Suc k"
      by auto
    from Cons.IH [OF k(1)] False k(2) show ?thesis
      by (auto simp: less_Suc_eq_0_disj)
  qed
qed



lemma save_Inr: "save now a = Inr a' \<Longrightarrow> a' = a \<and> expiresAt a \<noteq> None"
  by (auto simp: save_def validate_def validBid_def preSave_def split: if_splits)

lemma rejectOthers_length: "length (rejectOthers bidId bs) = length bs"
  by (simp add: rejectOthers_def)

lemma rejectOthers_nth:
  "j < length bs \<Longrightarrow>
   rejectOthers bidId bs ! j =
     (if bid_id (bs ! j) \<noteq> bidId then (bs ! j)\<lparr>bid_status := Rejected\<rparr> else bs ! j)"
  by (simp add: rejectOthers_def)

section \<open>Accepting a bid\<close>




section \<open>Submitting bids\<close>

lemma addBid_Inr:
  assumes "addBid now fresh bd a = Inr a'"
  shows "isOpen now a \<and> expiresAt a \<noteq> None \<and>
    (case findIndex (\<lambda>b. developer b = bd_developer bd) (bids a) of
       Some i \<Rightarrow> a' = a\<lparr>bids := (bids a)[i := spreadBid fresh (bids a ! i) bd now]\<rparr>
     | None \<Rightarrow> a' = a\<lparr>bids := bids a @ [newBid fresh now bd]\<rparr>)"
  using assms
  by (auto simp: addBid_def split: if_splits option.splits dest!: save_Inr)










section \<open>Verifying a payment\<close>

lemma findIndex_update:
  "findIndex P xs = Some i \<Longrightarrow> P y \<Longrightarrow> findIndex P (xs[i := y]) = Some i"
proof (induction xs arbitrary: i)
  case Nil
  then show ?case by simp
next
  case (Cons x xs)
  then show ?case by (cases i) (auto split: if_splits)
qed

lemma payments_addPurchase [simp]: "payments (addPurchase uid appId u s) = payments s"
  by (simp add: addPurchase_def)

lemma payments_incrementDownloads [simp]: "payments (incrementDownloads appId s) = payments s"
  by (simp add: incrementDownloads_def split: option.splits)

lemma users_incrementDownloads [simp]: "users (incrementDownloads appId s) = users s"
  by (simp add: incrementDownloads_def split: option.splits)

lemma verify_already_processed:
  assumes "vr_orderId req \<noteq> []" "vr_paymentId req \<noteq> []" "vr_signature req \<noteq> []"
    and "vr_signature req = hmac secret (vr_orderId req @ ''|'' @ vr_paymentId req)"
    and "findByOrderId (vr_orderId req) (payments s) = Some i"
    and "pay_user (payments s ! i) = uid"
    and "pay_status (payments s ! i) \<noteq> PaymentPending"
  shows "verify hmac secret now uid req s = (Inl AlreadyProcessed, s)"
  using assms by (simp add: verify_def)

lemma verify_Inr:
  assumes "verify hmac secret now uid req s = (Inr p, s')"
  shows "vr_orderId req \<noteq> [] \<and> vr_paymentId req \<noteq> [] \<and> vr_signature req \<noteq> [] \<and>
     vr_signature req = hmac secret (vr_orderId req @ ''|'' @ vr_paymentId req) \<and>
     (\<exists>i u. findByOrderId (vr_orderId req) (payments s) = Some i \<and>
        pay_user (payments s ! i) = uid \<and>
        pay_status (payments s ! i) = PaymentPending \<and>
        p = markCompleted now (vr_paymentId req) (vr_signature req) (payments s ! i) \<and>
        users s uid = Some u \<and>
        s' = incrementDownloads (pay_app p)
               (addPurchase uid (pay_app p) u (s\<lparr>payments := (payments s)[i := p]\<rparr>)))"
  using assms
  by (auto simp: verify_def Let_def split: if_splits option.splits)

text \<open>
  Claim C3. A verify request that carries its three fields and the right signature, from
  the owner of a payment record that is not pending, is answered AlreadyProcessed and
  leaves the whole store, the purchases with it, as it was. A verify request that succeeds
  found the record pending and leaves it completed, with the gateway's payment id, the
  signature and the completion time stored; the item is appended to the user's purchases
  unless it is there already; and the same request sent again afterwards, at any later
  time, is answered AlreadyProcessed and changes nothing.
\<close>

theorem verify_completes_once:
  "(vr_orderId req \<noteq> [] \<and> vr_paymentId req \<noteq> [] \<and> vr_signature req \<noteq> [] \<and>
    vr_signature req = hmac secret (vr_orderId req @ ''|'' @ vr_paymentId req) \<and>
    findByOrderId (vr_orderId req) (payments s) = Some i \<and>
    pay_user (payments s ! i) = uid \<and>
    pay_status (payments s ! i) \<noteq> PaymentPending
    \<longrightarrow> verify hmac secret now uid req s = (Inl AlreadyProcessed, s)) \<and>
   (verify hmac secret now uid req s = (Inr p, s')
    \<longrightarrow> (\<exists>k u. findByOrderId (vr_orderId req) (payments s) = Some k \<and>
           pay_status (payments s ! k) = PaymentPending \<and>
           payments s' = (payments s)[k := p] \<and>
           pay_status p = PaymentCompleted \<and>
           razorpayPaymentId p = Some (vr_paymentId req) \<and>
           razorpaySignature p = Some (vr_signature req) \<and>
           completedAt p = Some now \<and>
           users s uid = Some u \<and>
           users s' uid =
             Some (u\<lparr>purchases :=
                      (if pay_app p \<in> set (purchases u) then purchases u
                       else purchases u @ [pay_app p])\<rparr>)) \<and>
        verify hmac secret later uid req s' = (Inl AlreadyProcessed, s'))"
proof (intro conjI impI)
  assume "vr_orderId req \<noteq> [] \<and> vr_paymentId req \<noteq> [] \<and> vr_signature req \<noteq> [] \<and>
    vr_signature req = hmac secret (vr_orderId req @ ''|'' @ vr_paymentId req) \<and>
    findByOrderId (vr_orderId req) (payments s) = Some i \<and>
    pay_user (payments s ! i) = uid \<and>
    pay_status (payments s ! i) \<noteq> PaymentPending"
  then show "verify hmac secret now uid req s = (Inl AlreadyProcessed, s)"
    by (intro verify_already_processed) auto
next
  assume ok: "verify hmac secret now uid req s = (Inr p, s')"
  from verify_Inr [OF ok] obtain k u where
    ne: "vr_orderId req \<noteq> []" "vr_paymentId req \<noteq> []" "vr_signature req \<noteq> []"
    and sg: "vr_signature req = hmac secret (vr_orderId req @ ''|'' @ vr_paymentId req)"
    and fk: "findByOrderId (vr_orderId req) (payments s) = Some k"
    and own: "pay_user (payments s ! k) = uid"
    and pend: "pay_status (payments s ! k) = PaymentPending"
    and p: "p = markCompleted now (vr_paymentId req) (vr_signature req) (payments s ! k)"
    and u: "users s uid = Some u"
    and s': "s' = incrementDownloads (pay_app p)
               (addPurchase uid (pay_app p) u (s\<lparr>payments := (payments s)[k := p]\<rparr>))"
    by blast
  from fk have kl: "k < length (payments s)" and ko: "razorpayOrderId (payments s ! k) = vr_orderId req"
    using findIndex_Some [of "\<lambda>p. razorpayOrderId p = vr_orderId req" "payments s" k]
    by (auto simp: findByOrderId_def)
  have ps': "payments s' = (payments s)[k := p]"
    by (simp add: s')
  have us': "users s' uid =
             Some (u\<lparr>purchases :=
                      (if pay_app p \<in> set (purchases u) then purchases u
                       else purchases u @ [pay_app p])\<rparr>)"
    using u by (simp add: s' addPurchase_def)
  show "\<exists>k u. findByOrderId (vr_orderId req) (payments s) = Some k \<and>
           pay_status (payments s ! k) = PaymentPending \<and>
           payments s' = (payments s)[k := p] \<and>
           pay_status p = PaymentCompleted \<and>
           razorpayPaymentId p = Some (vr_paymentId req) \<and>
           razorpaySignature p = Some (vr_signature req) \<and>
           completedAt p = Some now \<and>
           users s uid = Some u \<and>
           users s' uid =
             Some (u\<lparr>purchases :=
                      (if pay_app p \<in> set (purchases u) then purchases u
                       else purchases u @ [pay_app p])\<rparr>)"
    using fk pend ps' u us' by (intro exI [of _ k] exI [of _ u]) (simp add: p markCompleted_def)
  have "razorpayOrderId p = vr_orderId req"
    using ko by (simp add: p markCompleted_def)
  with fk have fk': "findByOrderId (vr_orderId req) (payments s') = Some k"
    by (simp add: ps' findByOrderId_def findIndex_update)
  have pk: "payments s' ! k = p" using kl by (simp add: ps')
  show "verify hmac secret later uid req s' = (Inl AlreadyProcessed, s')"
  proof -
    have "pay_user (payments s' ! k) = uid" using own by (simp add: pk p markCompleted_def)
    moreover have "pay_status (payments s' ! k) \<noteq> PaymentPending"
      by (simp add: pk p markCompleted_def)
    ultimately show ?thesis
      using ne sg fk' by (simp add: verify_def)
  qed
qed

theorem verify_completes_once_witness:
  "verify stubHmac ''secret'' 1000 ''u1'' verifyReq payStore =
     (Inr completedPayment, payStoreVerified) \<and>
   pay_status completedPayment = PaymentCompleted \<and>
   users payStore ''u1'' = Some \<lparr>purchases = []\<rparr> \<and>
   users payStoreVerified ''u1'' = Some \<lparr>purchases = [''app1'']\<rparr> \<and>
   findByOrderId (vr_orderId verifyReq) (payments payStoreVerified) = Some 0 \<and>
   pay_status (payments payStoreVerified ! 0) \<noteq> PaymentPending \<and>
   verify stubHmac ''secret'' 2000 ''u1'' verifyReq payStoreVerified =
     (Inl AlreadyProcessed, payStoreVerified)"
proof -
  have ok: "verify stubHmac ''secret'' 1000 ''u1'' verifyReq payStore =
     (Inr completedPayment, payStoreVerified)"
    by (simp add: verify_def stubHmac_def verifyReq_def payStore_def pendingPayment_def
        newPayment_def order199_def findByOrderId_def completedPayment_def
        payStoreVerified_def addPurchase_def incrementDownloads_def markCompleted_def Let_def)
  have pre: "vr_orderId verifyReq \<noteq> [] \<and> vr_paymentId verifyReq \<noteq> [] \<and>
      vr_signature verifyReq \<noteq> [] \<and>
      vr_signature verifyReq =
        stubHmac ''secret'' (vr_orderId verifyReq @ ''|'' @ vr_paymentId verifyReq) \<and>
      findByOrderId (vr_orderId verifyReq) (payments payStoreVerified) = Some 0 \<and>
      pay_user (payments payStoreVerified ! 0) = ''u1'' \<and>
      pay_status (payments payStoreVerified ! 0) \<noteq> PaymentPending"
    by (simp add: verifyReq_def stubHmac_def payStoreVerified_def completedPayment_def
        pendingPayment_def newPayment_def order199_def findByOrderId_def markCompleted_def)
  have st: "pay_status completedPayment = PaymentCompleted"
    by (simp add: completedPayment_def markCompleted_def)
  have u0: "users payStore ''u1'' = Some \<lparr>purchases = []\<rparr>"
    by (simp add: payStore_def)
  have u1: "users payStoreVerified ''u1'' = Some \<lparr>purchases = [''app1'']\<rparr>"
    by (simp add: payStoreVerified_def)
  from verify_completes_once [where hmac = stubHmac and secret = "''secret''" and now = 2000
      and uid = "''u1''" and req = verifyReq and s = payStoreVerified and i = 0]
    verify_completes_once [where hmac = stubHmac and secret = "''secret''" and now = 1000
      and uid = "''u1''" and req = verifyReq and s = payStore and p = completedPayment
      and s' = payStoreVerified and later = 2000]
    ok pre st u0 u1
  show ?thesis by simp
qed

text \<open>
  Claim C4, as stated for every verify call whose signature differs from the digest, fails
  for a call that lacks a field: the handler turns it away as missing verification data
  before it computes the digest, so the answer is ValidationFailed, not SignatureInvalid.
\<close>

theorem verify_missing_field_counterexample:
  "vr_signature noPaymentIdReq \<noteq>
     stubHmac ''secret'' (vr_orderId noPaymentIdReq @ ''|'' @ vr_paymentId noPaymentIdReq) \<and>
   verify stubHmac ''secret'' 1000 ''u1'' noPaymentIdReq payStore =
     (Inl ValidationFailed, payStore)"
  by (simp add: verify_def noPaymentIdReq_def stubHmac_def)

text \<open>
  Claim C4, amended. A verify request whose signature is not the digest of
  \<^verbatim>\<open>orderId + "|" + paymentId\<close> under the secret fails and leaves the store as it was;
  a payment record that was pending for that order is still pending. The answer is
  SignatureInvalid when the request carries its three fields, and ValidationFailed when
  one of them is missing or empty.
\<close>

theorem verify_forged_signature:
  assumes "vr_signature req \<noteq> hmac secret (vr_orderId req @ ''|'' @ vr_paymentId req)"
  shows "verify hmac secret now uid req s =
      (Inl (if vr_orderId req = [] \<or> vr_paymentId req = [] \<or> vr_signature req = []
            then ValidationFailed else SignatureInvalid), s) \<and>
    (\<forall>i. findByOrderId (vr_orderId req) (payments s) = Some i \<and>
          pay_status (payments s ! i) = PaymentPending \<longrightarrow>
          pay_status (payments (snd (verify hmac secret now uid req s)) ! i) = PaymentPending)"
proof -
  from assms have "verify hmac secret now uid req s =
      (Inl (if vr_orderId req = [] \<or> vr_paymentId req = [] \<or> vr_signature req = []
            then ValidationFailed else SignatureInvalid), s)"
    by (auto simp: verify_def)
  then show ?thesis by simp
qed

theorem verify_forged_signature_witness:
  "vr_signature forgedReq \<noteq>
     stubHmac ''secret'' (vr_orderId forgedReq @ ''|'' @ vr_paymentId forgedReq) \<and>
   findByOrderId (vr_orderId forgedReq) (payments payStore) = Some 0 \<and>
   pay_status (payments payStore ! 0) = PaymentPending \<and>
   verify stubHmac ''secret'' 1000 ''u1'' forgedReq payStore = (Inl SignatureInvalid, payStore) \<and>
   pay_status (payments (snd (verify stubHmac ''secret'' 1000 ''u1'' forgedReq payStore)) ! 0) =
     PaymentPending"
proof -
  have h: "vr_signature forgedReq \<noteq>
       stubHmac ''secret'' (vr_orderId forgedReq @ ''|'' @ vr_paymentId forgedReq)"
    by (simp add: forgedReq_def stubHmac_def)
  have n: "\<not> (vr_orderId forgedReq = [] \<or> vr_paymentId forgedReq = [] \<or>
      vr_signature forgedReq = [])"
    by (simp add: forgedReq_def)
  have f: "findByOrderId (vr_orderId forgedReq) (payments payStore) = Some 0"
    "pay_status (payments payStore ! 0) = PaymentPending"
    by (simp_all add: forgedReq_def payStore_def pendingPayment_def newPayment_def
        findByOrderId_def)
  from verify_forged_signature [where hmac = stubHmac, OF h, of 1000 "''u1''" payStore] h n f
  show ?thesis by simp
qed

text \<open>
  Claim C10, as stated for every verify request whose signature does not match, fails for a
  request that lacks a field, here the signature itself: no record exists for the order,
  the empty signature is not the digest, and the answer is ValidationFailed.
\<close>

theorem verify_missing_signature_counterexample:
  "findByOrderId (vr_orderId noSignatureReq) (payments emptyStore) = None \<and>
   vr_signature noSignatureReq \<noteq>
     stubHmac ''secret'' (vr_orderId noSignatureReq @ ''|'' @ vr_paymentId noSignatureReq) \<and>
   fst (verify stubHmac ''secret'' 1000 ''u1'' noSignatureReq emptyStore) = Inl ValidationFailed"
  by (simp add: verify_def noSignatureReq_def stubHmac_def emptyStore_def findByOrderId_def)

text \<open>
  Claim C10, amended. The signature is checked before the payment record is looked up: a
  request whose signature is not the digest is answered without regard to the store, also
  when the store holds no record for the order, with SignatureInvalid when it carries its
  three fields and with ValidationFailed when one of them is missing or empty; and the
  answer NotFound is only given to a request whose signature is the digest.
\<close>

theorem verify_signature_before_lookup:
  "(vr_signature req \<noteq> hmac secret (vr_orderId req @ ''|'' @ vr_paymentId req)
    \<longrightarrow> fst (verify hmac secret now uid req s) =
          Inl (if vr_orderId req = [] \<or> vr_paymentId req = [] \<or> vr_signature req = []
               then ValidationFailed else SignatureInvalid)) \<and>
   (fst (verify hmac secret now uid req s) = Inl NotFound
    \<longrightarrow> vr_signature req = hmac secret (vr_orderId req @ ''|'' @ vr_paymentId req) \<and>
        findByOrderId (vr_orderId req) (payments s) = None)"
  by (auto simp: verify_def Let_def split: if_splits option.splits)

theorem verify_signature_before_lookup_witness:
  "findByOrderId (vr_orderId forgedReq) (payments emptyStore) = None \<and>
   vr_signature forgedReq \<noteq>
     stubHmac ''secret'' (vr_orderId forgedReq @ ''|'' @ vr_paymentId forgedReq) \<and>
   fst (verify stubHmac ''secret'' 1000 ''u1'' forgedReq emptyStore) = Inl SignatureInvalid \<and>
   fst (verify stubHmac ''secret'' 1000 ''u1'' verifyReq emptyStore) = Inl NotFound \<and>
   vr_signature verifyReq =
     stubHmac ''secret'' (vr_orderId verifyReq @ ''|'' @ vr_paymentId verifyReq)"
proof -
  have a: "vr_signature forgedReq \<noteq>
        stubHmac ''secret'' (vr_orderId forgedReq @ ''|'' @ vr_paymentId forgedReq)"
    by (simp add: forgedReq_def stubHmac_def)
  have n: "\<not> (vr_orderId forgedReq = [] \<or> vr_paymentId forgedReq = [] \<or>
      vr_signature forgedReq = [])"
    by (simp add: forgedReq_def)
  have b: "fst (verify stubHmac ''secret'' 1000 ''u1'' verifyReq emptyStore) = Inl NotFound"
    by (simp add: verify_def verifyReq_def stubHmac_def emptyStore_def findByOrderId_def)
  have c: "findByOrderId (vr_orderId forgedReq) (payments emptyStore) = None"
    by (simp add: emptyStore_def findByOrderId_def)
  from verify_signature_before_lookup [where hmac = stubHmac and secret = "''secret''"
      and now = 1000 and uid = "''u1''" and req = forgedReq and s = emptyStore]
    verify_signature_before_lookup [where hmac = stubHmac and secret = "''secret''"
      and now = 1000 and uid = "''u1''" and req = verifyReq and s = emptyStore]
    a n b c
  show ?thesis by simp
qed

section \<open>Refunding a payment\<close>

lemma refund_Inr:
  assumes "refund toPaise remote now u req s = (Inr r, s')"
  shows "acc_role u = ''admin'' \<and> rr_paymentId req \<noteq> [] \<and> rr_amount req \<noteq> 0 \<and>
     rr_reason req \<noteq> [] \<and>
     (\<exists>i. findById (rr_paymentId req) (payments s) = Some i \<and>
        pay_status (payments s ! i) = PaymentCompleted \<and>
        remote = Some (fst r) \<and> snd r = rr_amount req \<and>
        s' = s\<lparr>payments := (payments s)[i := processRefund now (rr_amount req) (rr_reason req)
                                                (payments s ! i)],
               gatewayRefunds := gatewayRefunds s @
                 [(razorpayPaymentId (payments s ! i), toPaise (rr_amount req))]\<rparr>)"
  using assms
  by (auto simp: refund_def Let_def split: if_splits option.splits)

lemma refund_not_completed:
  assumes "findById (rr_paymentId req) (payments s) = Some i"
    and "pay_status (payments s ! i) \<noteq> PaymentCompleted"
  shows "\<exists>e. refund toPaise remote now u req s = (Inl e, s)"
    and "acc_role u = ''admin'' \<Longrightarrow> rr_paymentId req \<noteq> [] \<Longrightarrow> rr_amount req \<noteq> 0 \<Longrightarrow>
         rr_reason req \<noteq> [] \<Longrightarrow> refund toPaise remote now u req s = (Inl InvalidState, s)"
  using assms by (auto simp: refund_def)

lemma refund_remote_failure: "\<exists>e. refund toPaise None now u req s = (Inl e, s)"
  by (auto simp: refund_def Let_def split: option.splits)

lemma refund_changes_only_on_success:
  assumes "snd (refund toPaise remote now u req s) \<noteq> s"
  shows "\<exists>rid. remote = Some rid \<and> fst (refund toPaise remote now u req s) = Inr (rid, rr_amount req)"
  using assms by (auto simp: refund_def Let_def split: if_splits option.splits)

text \<open>
  Claim C5. A refund that succeeds found the payment completed and the gateway's refund
  call successful, and leaves the record refunded with amount, reason and time recorded.
  After it, every further refund request for that payment fails and changes nothing, and
  the same request sent again is answered InvalidState; so a payment goes from completed
  to refunded at most once. When the gateway's call fails, the request fails and the store
  is left as it was; the store changes only when the gateway's call succeeded and the
  refund is reported successful.
\<close>

theorem refund_only_completed_once:
  "(refund toPaise remote now u req s = (Inr r, s') \<longrightarrow>
      (\<exists>i. findById (rr_paymentId req) (payments s) = Some i \<and>
           pay_status (payments s ! i) = PaymentCompleted \<and>
           remote = Some (fst r) \<and>
           payments s' = (payments s)[i := (payments s ! i)\<lparr>pay_status := PaymentRefunded,
               refundAmount := rr_amount req, refundReason := Some (rr_reason req),
               refundedAt := Some now\<rparr>]) \<and>
      (\<exists>e. refund toPaise remoteB later uB (reqB\<lparr>rr_paymentId := rr_paymentId req\<rparr>) s' = (Inl e, s')) \<and>
      refund toPaise remoteB later u req s' = (Inl InvalidState, s')) \<and>
   (\<exists>e. refund toPaise None now u req s = (Inl e, s)) \<and>
   (snd (refund toPaise remote now u req s) \<noteq> s \<longrightarrow>
      (\<exists>rid. remote = Some rid \<and> fst (refund toPaise remote now u req s) = Inr (rid, rr_amount req)))"
proof (intro conjI impI)
  assume ok: "refund toPaise remote now u req s = (Inr r, s')"
  from refund_Inr [OF ok] obtain i where
    g: "acc_role u = ''admin''" "rr_paymentId req \<noteq> []" "rr_amount req \<noteq> 0" "rr_reason req \<noteq> []"
    and fi: "findById (rr_paymentId req) (payments s) = Some i"
    and st: "pay_status (payments s ! i) = PaymentCompleted"
    and rm: "remote = Some (fst r)"
    and s': "s' = s\<lparr>payments := (payments s)[i := processRefund now (rr_amount req) (rr_reason req)
                                                (payments s ! i)],
               gatewayRefunds := gatewayRefunds s @
                 [(razorpayPaymentId (payments s ! i), toPaise (rr_amount req))]\<rparr>"
    by blast
  from fi have il: "i < length (payments s)" and pid: "pay_id (payments s ! i) = rr_paymentId req"
    using findIndex_Some [of "\<lambda>p. pay_id p = rr_paymentId req" "payments s" i]
    by (auto simp: findById_def)
  show "\<exists>i. findById (rr_paymentId req) (payments s) = Some i \<and>
           pay_status (payments s ! i) = PaymentCompleted \<and>
           remote = Some (fst r) \<and>
           payments s' = (payments s)[i := (payments s ! i)\<lparr>pay_status := PaymentRefunded,
               refundAmount := rr_amount req, refundReason := Some (rr_reason req),
               refundedAt := Some now\<rparr>]"
    using fi st rm by (intro exI [of _ i]) (simp add: s' processRefund_def)
  have fi': "findById (rr_paymentId req) (payments s') = Some i"
    using fi pid by (simp add: s' findById_def findIndex_update processRefund_def)
  have st': "pay_status (payments s' ! i) \<noteq> PaymentCompleted"
    using il by (simp add: s' processRefund_def)
  from refund_not_completed(1) [of "reqB\<lparr>rr_paymentId := rr_paymentId req\<rparr>" s' i] fi' st'
  show "\<exists>e. refund toPaise remoteB later uB (reqB\<lparr>rr_paymentId := rr_paymentId req\<rparr>) s' = (Inl e, s')"
    by simp
  from refund_not_completed(2) [OF fi' st' g]
  show "refund toPaise remoteB later u req s' = (Inl InvalidState, s')" .
next
  show "\<exists>e. refund toPaise None now u req s = (Inl e, s)" by (rule refund_remote_failure)
next
  assume "snd (refund toPaise remote now u req s) \<noteq> s"
  then show "\<exists>rid. remote = Some rid \<and> fst (refund toPaise remote now u req s) = Inr (rid, rr_amount req)"
    by (rule refund_changes_only_on_success)
qed

theorem refund_only_completed_once_witness:
  "refund scenarioPaise (Some ''rfnd_1'') 3000 adminAccount refundReq payStoreVerified =
     (Inr (''rfnd_1'', 199), payStoreRefunded) \<and>
   pay_status (payments payStoreVerified ! 0) = PaymentCompleted \<and>
   pay_status (payments payStoreRefunded ! 0) = PaymentRefunded \<and>
   refund scenarioPaise (Some ''rfnd_2'') 4000 adminAccount refundReq payStoreRefunded =
     (Inl InvalidState, payStoreRefunded) \<and>
   refund scenarioPaise None 3000 adminAccount refundReq payStoreVerified = (Inl ServerError, payStoreVerified) \<and>
   snd (refund scenarioPaise (Some ''rfnd_1'') 3000 adminAccount refundReq payStoreVerified) \<noteq> payStoreVerified"
proof -
  have ok: "refund scenarioPaise (Some ''rfnd_1'') 3000 adminAccount refundReq payStoreVerified =
     (Inr (''rfnd_1'', 199), payStoreRefunded)"
    by (simp add: refund_def adminAccount_def refundReq_def payStoreVerified_def
        payStoreRefunded_def refundedPayment_def completedPayment_def pendingPayment_def
        newPayment_def order199_def markCompleted_def processRefund_def findById_def scenarioPaise_def
        Let_def)
  have fl: "refund scenarioPaise None 3000 adminAccount refundReq payStoreVerified =
      (Inl ServerError, payStoreVerified)"
    by (simp add: refund_def adminAccount_def refundReq_def payStoreVerified_def
        completedPayment_def pendingPayment_def newPayment_def order199_def markCompleted_def
        findById_def Let_def)
  have st: "pay_status (payments payStoreVerified ! 0) = PaymentCompleted"
    "pay_status (payments payStoreRefunded ! 0) = PaymentRefunded"
    by (simp_all add: payStoreVerified_def payStoreRefunded_def refundedPayment_def
        completedPayment_def markCompleted_def processRefund_def)
  have ne: "payStoreRefunded \<noteq> payStoreVerified"
    by (simp add: payStoreRefunded_def payStoreVerified_def)
  from refund_only_completed_once [where toPaise = scenarioPaise
      and remote = "Some ''rfnd_1''" and now = 3000
      and u = adminAccount and req = refundReq and s = payStoreVerified
      and r = "(''rfnd_1'', 199)" and s' = payStoreRefunded and remoteB = "Some ''rfnd_2''"
      and later = 4000] ok fl st ne
  show ?thesis by simp
qed

section \<open>Bidding on an expired auction\<close>

text \<open>
  Claim C6, as stated, fails at the boundary: \<^verbatim>\<open>isExpired\<close> is
  \<^verbatim>\<open>expiresAt < now\<close>, so an open auction whose \<^verbatim>\<open>expiresAt\<close> equals the current
  time is not strictly after it and still takes the bid. It also fails for the buyer's own
  bid on an open auction that has expired: the route checks the bidder before the method
  checks the expiry, and answers SelfBidForbidden.
\<close>

theorem submitBid_expired_boundary_counterexample:
  "status expiringNow = Open \<and> expiresAt expiringNow = Some 1000 \<and> \<not> (1000 < (1000::int)) \<and>
   submitBid 1000 ''b1'' (Some expiringNow) ''devA'' firstBid =
     Inr (expiringNow\<lparr>bids := [devABid300]\<rparr>) \<and>
   status expiredOpen = Open \<and> expiresAt expiredOpen = Some 999 \<and>
   submitBid 1000 ''b1'' (Some expiredOpen) (buyer expiredOpen) firstBid = Inl SelfBidForbidden"
  by (simp add: submitBid_def expiringNow_def expiredOpen_def emptyAuction_def firstBid_def
      addBid_def isOpen_def isExpired_def save_def validate_def validBid_def preSave_def newBid_def
      devABid300_def)

text \<open>
  Claim C6, amended. For an auction whose \<^verbatim>\<open>expiresAt\<close> is strictly before the current
  time, a bid request fails and the stored auction is unchanged, even when the status is
  still open; the answer is InvalidState when the request is valid, the auction is active
  and the bidder is not the buyer (otherwise an earlier guard answers). A bid request
  succeeds only when the status is open and \<^verbatim>\<open>expiresAt\<close> is not before the current
  time.
\<close>

theorem submitBid_expired:
  "(br_valid req \<and> isActive a \<and> buyer a \<noteq> uid \<and> expiresAt a = Some t \<and> t < now
      \<longrightarrow> submitBid now fresh (Some a) uid req = Inl InvalidState) \<and>
   (expiresAt a = Some t \<and> t < now
      \<longrightarrow> isl (submitBid now fresh (Some a) uid req) \<and> bidStep a (now, fresh, uid, req) = a) \<and>
   (submitBid now fresh (Some a) uid req = Inr a'
      \<longrightarrow> status a = Open \<and> (\<exists>t'. expiresAt a = Some t' \<and> now \<le> t'))"
proof (intro conjI impI)
  assume "br_valid req \<and> isActive a \<and> buyer a \<noteq> uid \<and> expiresAt a = Some t \<and> t < now"
  then show "submitBid now fresh (Some a) uid req = Inl InvalidState"
    by (simp add: submitBid_def addBid_def isOpen_def isExpired_def)
next
  assume e: "expiresAt a = Some t \<and> t < now"
  then show "isl (submitBid now fresh (Some a) uid req)"
    by (simp add: submitBid_def addBid_def isOpen_def isExpired_def)
  then show "bidStep a (now, fresh, uid, req) = a"
    by (auto simp: bidStep_def split: sum.splits)
next
  assume ok: "submitBid now fresh (Some a) uid req = Inr a'"
  then show "status a = Open"
    by (auto simp: submitBid_def split: if_splits)
  from ok obtain bd where "addBid now fresh bd a = Inr a'"
    by (auto simp: submitBid_def split: if_splits sum.splits)
  from addBid_Inr [OF this] show "\<exists>t'. expiresAt a = Some t' \<and> now \<le> t'"
    by (auto simp: isOpen_def isExpired_def)
qed

theorem submitBid_expired_witness:
  "br_valid firstBid \<and> isActive expiredOpen \<and> buyer expiredOpen \<noteq> ''devA'' \<and>
   status expiredOpen = Open \<and> expiresAt expiredOpen = Some 999 \<and> (999::int) < 1000 \<and>
   submitBid 1000 ''b1'' (Some expiredOpen) ''devA'' firstBid = Inl InvalidState \<and>
   bidStep expiredOpen (1000, ''b1'', ''devA'', firstBid) = expiredOpen \<and>
   submitBid 1000 ''b1'' (Some emptyAuction) ''devA'' firstBid =
     Inr (emptyAuction\<lparr>bids := [devABid300]\<rparr>) \<and>
   expiresAt emptyAuction = Some 2000 \<and> (1000::int) \<le> 2000"
proof -
  have h: "br_valid firstBid \<and> isActive expiredOpen \<and> buyer expiredOpen \<noteq> ''devA'' \<and>
      expiresAt expiredOpen = Some 999 \<and> (999::int) < 1000"
    by (simp add: firstBid_def expiredOpen_def emptyAuction_def)
  have o: "status expiredOpen = Open" "expiresAt emptyAuction = Some 2000"
    by (simp_all add: expiredOpen_def emptyAuction_def)
  have s: "submitBid 1000 ''b1'' (Some emptyAuction) ''devA'' firstBid =
     Inr (emptyAuction\<lparr>bids := [devABid300]\<rparr>)"
    by (simp add: submitBid_def emptyAuction_def firstBid_def addBid_def isOpen_def
        isExpired_def save_def validate_def validBid_def preSave_def newBid_def devABid300_def)
  from submitBid_expired [where req = firstBid and a = expiredOpen and uid = "''devA''"
      and t = 999 and now = 1000 and fresh = "''b1''"]
    submitBid_expired [where req = firstBid and a = emptyAuction and uid = "''devA''"
      and now = 1000 and fresh = "''b1''" and a' = "emptyAuction\<lparr>bids := [devABid300]\<rparr>"]
    h o s
  show ?thesis by simp
qed

section \<open>Accepting a bid on an auction that is not open\<close>

text \<open>
  The handler, when it runs for the buyer, turns an auction that is not open away with
  InvalidState before it looks at any bid; for any caller it fails.
\<close>

lemma acceptBidHandler_not_open:
  "status a \<noteq> Open \<Longrightarrow> acceptBidHandler now (Some a) (buyer a) bidId = Inl InvalidState"
  by (simp add: acceptBidHandler_def)

lemma acceptBidHandler_not_open_fails:
  "status a \<noteq> Open \<Longrightarrow> isl (acceptBidHandler now (Some a) uid bidId)"
  by (simp add: acceptBidHandler_def)

text \<open>
  Claim C8 says that accepting a bid on an auction that is not open fails with
  InvalidState. The route as registered does not get that far: for every authenticated
  request the chain stops at the \<^verbatim>\<open>ownerOrAdmin\<close> factory, the handler is not run and
  no answer is sent, whatever the auction and its bids are.
\<close>

theorem acceptBidRoute_never_answers:
  "acc_isActive u \<Longrightarrow> acceptBidRoute (Some u) now rid found bidId = None"
  by (simp add: acceptBidRoute_def protect_def)

theorem acceptBidRoute_never_answers_witness:
  "acc_isActive buyerAccount \<and> status inProgressAuction \<noteq> Open \<and>
   buyer inProgressAuction = acc_id buyerAccount \<and>
   acceptBidRoute (Some buyerAccount) 1000 ''auction1'' (Some inProgressAuction) ''b2'' = None \<and>
   acceptBidRoute (Some buyerAccount) 1000 ''auction1'' (Some inProgressAuction) ''b2'' \<noteq>
     Some (Inl InvalidState)"
proof -
  have a: "acc_isActive buyerAccount" by (simp add: buyerAccount_def)
  have b: "status inProgressAuction \<noteq> Open" "buyer inProgressAuction = acc_id buyerAccount"
    by (simp_all add: inProgressAuction_def threeBids_def buyerAccount_def)
  from acceptBidRoute_never_answers [OF a, of 1000 "''auction1''" "Some inProgressAuction" "''b2''"]
    a b
  show ?thesis by simp
qed

section \<open>Saving an auction without an expiry\<close>

text \<open>An auction that is saved has its \<^verbatim>\<open>expiresAt\<close> set.\<close>

lemma save_expiresAt_set: "save now a = Inr a' \<Longrightarrow> expiresAt a' \<noteq> None"
  by (auto simp: save_def validate_def validBid_def preSave_def split: if_splits)

text \<open>
  Claim C9 says that saving an auction without \<^verbatim>\<open>expiresAt\<close> persists it with the
  default of 30 days. The save is rejected instead: the \<^verbatim>\<open>required\<close> validator runs
  before the hook that would set the default, and the create route answers 500.
\<close>

theorem save_without_expiresAt_rejected:
  "expiresAt a = None \<Longrightarrow>
   save now a = Inl ValidationError \<and> createAuction now uid True a = Inl ServerError"
  by (simp add: save_def validate_def createAuction_def)

theorem save_without_expiresAt_rejected_witness:
  "expiresAt noExpiry = None \<and> save 1000 noExpiry = Inl ValidationError \<and>
   createAuction 1000 ''buyer1'' True noExpiry = Inl ServerError"
proof -
  have h: "expiresAt noExpiry = None" by (simp add: noExpiry_def)
  from save_without_expiresAt_rejected [OF h, of 1000 "''buyer1''"] h show ?thesis by simp
qed

section \<open>Creating an order\<close>

lemma twoOrders_eq:
  "twoOrders = \<lparr>payments = [newPayment ''p1'' ''u1'' order199 ''order_1'',
                              newPayment ''p2'' ''u1'' order199 ''order_2''],
      users = [''u1'' \<mapsto> \<lparr>purchases = []\<rparr>],
      apps = [''app1'' \<mapsto> \<lparr>downloads = 0\<rparr>],
      gatewayOrders = [(''order_1'', 19900), (''order_2'', 19900)], gatewayRefunds = []\<rparr>"
  by (simp add: twoOrders_def createOrder_def shopStore_def order199_def completedFor_def
      findByOrderId_def newPayment_def scenarioPaise_def Let_def)

lemma paidTwice_payments:
  "payments paidTwice =
     [markCompleted 1000 ''pay_1'' ''secret/order_1|pay_1'' (newPayment ''p1'' ''u1'' order199 ''order_1''),
      markCompleted 2000 ''pay_2'' ''secret/order_2|pay_2'' (newPayment ''p2'' ''u1'' order199 ''order_2'')]"
  by (simp add: paidTwice_def twoOrders_eq verify_def stubHmac_def verifyReq_def verifyReqB_def
      findByOrderId_def newPayment_def order199_def markCompleted_def addPurchase_def
      incrementDownloads_def Let_def)

text \<open>
  Claim C7, as stated, fails in its second half: the gate of \<^verbatim>\<open>create-order\<close> looks at
  completed payments only, and \<^verbatim>\<open>verify\<close> does not look at other payments at all. A user
  who creates two orders for one item before paying, and verifies both, ends with two
  completed payments for the pair.
\<close>

theorem createOrder_completed_not_unique_counterexample:
  "fst (createOrder scenarioPaise (Some ''order_1'') ''p1'' ''u1'' order199 shopStore) =
     Inr (''order_1'', 19900, ''p1'') \<and>
   fst (createOrder scenarioPaise (Some ''order_2'') ''p2'' ''u1'' order199
         (snd (createOrder scenarioPaise (Some ''order_1'') ''p1'' ''u1'' order199 shopStore))) =
     Inr (''order_2'', 19900, ''p2'') \<and>
   isl (fst (verify stubHmac ''secret'' 1000 ''u1'' verifyReq twoOrders)) = False \<and>
   isl (fst (verify stubHmac ''secret'' 2000 ''u1'' verifyReqB
         (snd (verify stubHmac ''secret'' 1000 ''u1'' verifyReq twoOrders)))) = False \<and>
   length (completedFor ''u1'' ''app1'' (payments paidTwice)) = 2"
proof -
  have a: "createOrder scenarioPaise (Some ''order_1'') ''p1'' ''u1'' order199 shopStore =
     (Inr (''order_1'', 19900, ''p1''),
      shopStore\<lparr>gatewayOrders := [(''order_1'', 19900)],
                payments := [newPayment ''p1'' ''u1'' order199 ''order_1'']\<rparr>)"
    by (simp add: createOrder_def shopStore_def order199_def completedFor_def
      findByOrderId_def newPayment_def scenarioPaise_def Let_def)
  have b: "fst (createOrder scenarioPaise (Some ''order_2'') ''p2'' ''u1'' order199
         (shopStore\<lparr>gatewayOrders := [(''order_1'', 19900)],
                payments := [newPayment ''p1'' ''u1'' order199 ''order_1'']\<rparr>)) =
     Inr (''order_2'', 19900, ''p2'')"
    by (simp add: createOrder_def shopStore_def order199_def completedFor_def
      findByOrderId_def newPayment_def scenarioPaise_def Let_def)
  have c: "verify stubHmac ''secret'' 1000 ''u1'' verifyReq twoOrders =
     (Inr (markCompleted 1000 ''pay_1'' ''secret/order_1|pay_1'' (newPayment ''p1'' ''u1'' order199 ''order_1'')),
      twoOrders\<lparr>payments := [markCompleted 1000 ''pay_1'' ''secret/order_1|pay_1'' (newPayment ''p1'' ''u1'' order199 ''order_1''),
                              newPayment ''p2'' ''u1'' order199 ''order_2''],
         users := [''u1'' \<mapsto> \<lparr>purchases = [''app1'']\<rparr>],
         apps := [''app1'' \<mapsto> \<lparr>downloads = 1\<rparr>]\<rparr>)"
    by (simp add: twoOrders_eq verify_def stubHmac_def verifyReq_def
      findByOrderId_def newPayment_def order199_def markCompleted_def addPurchase_def
      incrementDownloads_def Let_def)
  have d: "isl (fst (verify stubHmac ''secret'' 2000 ''u1'' verifyReqB
         (snd (verify stubHmac ''secret'' 1000 ''u1'' verifyReq twoOrders)))) = False"
    by (simp add: c) (simp add: twoOrders_eq verify_def stubHmac_def verifyReqB_def
      findByOrderId_def newPayment_def order199_def markCompleted_def addPurchase_def
      incrementDownloads_def Let_def)
  have e: "length (completedFor ''u1'' ''app1'' (payments paidTwice)) = 2"
    by (simp add: paidTwice_payments completedFor_def markCompleted_def newPayment_def
        order199_def)
  show ?thesis using a b c d e by simp
qed

lemma createOrder_Inr:
  assumes "createOrder toPaise gw fresh uid req s = (Inr r, s')"
  shows "or_valid req \<and> apps s (or_appId req) \<noteq> None \<and>
     completedFor uid (or_appId req) (payments s) = [] \<and>
     gw = Some (fst r) \<and> findByOrderId (fst r) (payments s) = None \<and>
     r = (fst r, toPaise (or_amount req), fresh) \<and>
     s' = s\<lparr>gatewayOrders := gatewayOrders s @ [(fst r, toPaise (or_amount req))],
            payments := payments s @ [newPayment fresh uid req (fst r)]\<rparr>"
  using assms
  by (auto simp: createOrder_def Let_def split: if_splits option.splits list.splits)

text \<open>
  Claim C7, amended. A valid order request for an existing item is answered
  AlreadyPurchased whenever a completed payment exists for the user and the item; whenever
  such a payment exists the request fails and the store is unchanged, so neither a gateway
  order nor a payment record is created. An order request that succeeds found no completed
  payment for the pair, creates one gateway order and appends one pending record, and
  leaves the completed payments of every pair as they were.
\<close>

theorem createOrder_gate:
  "(or_valid req \<and> apps s (or_appId req) \<noteq> None \<and>
    completedFor uid (or_appId req) (payments s) \<noteq> []
      \<longrightarrow> createOrder toPaise gw fresh uid req s = (Inl AlreadyPurchased, s)) \<and>
   (completedFor uid (or_appId req) (payments s) \<noteq> []
      \<longrightarrow> isl (fst (createOrder toPaise gw fresh uid req s)) \<and>
          snd (createOrder toPaise gw fresh uid req s) = s) \<and>
   (createOrder toPaise gw fresh uid req s = (Inr r, s')
      \<longrightarrow> completedFor uid (or_appId req) (payments s) = [] \<and>
          gatewayOrders s' = gatewayOrders s @ [(fst r, toPaise (or_amount req))] \<and>
          payments s' = payments s @ [newPayment fresh uid req (fst r)] \<and>
          pay_status (newPayment fresh uid req (fst r)) = PaymentPending \<and>
          completedFor uidB appB (payments s') = completedFor uidB appB (payments s))"
proof (intro conjI impI)
  assume "or_valid req \<and> apps s (or_appId req) \<noteq> None \<and>
    completedFor uid (or_appId req) (payments s) \<noteq> []"
  then show "createOrder toPaise gw fresh uid req s = (Inl AlreadyPurchased, s)"
    by (auto simp: createOrder_def split: option.splits list.splits)
next
  assume c: "completedFor uid (or_appId req) (payments s) \<noteq> []"
  then show "isl (fst (createOrder toPaise gw fresh uid req s))"
    by (auto simp: createOrder_def split: option.splits list.splits)
  from c show "snd (createOrder toPaise gw fresh uid req s) = s"
    by (auto simp: createOrder_def split: option.splits list.splits)
next
  assume ok: "createOrder toPaise gw fresh uid req s = (Inr r, s')"
  note f = createOrder_Inr [OF ok]
  from f show "completedFor uid (or_appId req) (payments s) = []" by simp
  from f have s': "s' = s\<lparr>gatewayOrders := gatewayOrders s @ [(fst r, toPaise (or_amount req))],
            payments := payments s @ [newPayment fresh uid req (fst r)]\<rparr>" by simp
  show "gatewayOrders s' = gatewayOrders s @ [(fst r, toPaise (or_amount req))]"
    by (simp add: s')
  show "payments s' = payments s @ [newPayment fresh uid req (fst r)]"
    by (simp add: s')
  show "pay_status (newPayment fresh uid req (fst r)) = PaymentPending"
    by (simp add: newPayment_def)
  show "completedFor uidB appB (payments s') = completedFor uidB appB (payments s)"
    by (simp add: s' completedFor_def newPayment_def)
qed

theorem createOrder_gate_witness:
  "or_valid order199 \<and> apps payStoreVerified (or_appId order199) \<noteq> None \<and>
   completedFor ''u1'' (or_appId order199) (payments payStoreVerified) \<noteq> [] \<and>
   createOrder scenarioPaise (Some ''order_9'') ''p9'' ''u1'' order199 payStoreVerified =
     (Inl AlreadyPurchased, payStoreVerified) \<and>
   createOrder scenarioPaise (Some ''order_1'') ''p1'' ''u1'' order199 shopStore =
     (Inr (''order_1'', 19900, ''p1''),
      shopStore\<lparr>gatewayOrders := [(''order_1'', 19900)], payments := [pendingPayment]\<rparr>) \<and>
   completedFor ''u1'' (or_appId order199) (payments shopStore) = []"
proof -
  have h: "or_valid order199 \<and> apps payStoreVerified (or_appId order199) \<noteq> None \<and>
     completedFor ''u1'' (or_appId order199) (payments payStoreVerified) \<noteq> []"
    by (simp add: order199_def payStoreVerified_def completedFor_def completedPayment_def
        pendingPayment_def newPayment_def markCompleted_def)
  have ok: "createOrder scenarioPaise (Some ''order_1'') ''p1'' ''u1'' order199 shopStore =
     (Inr (''order_1'', 19900, ''p1''),
      shopStore\<lparr>gatewayOrders := [(''order_1'', 19900)], payments := [pendingPayment]\<rparr>)"
    by (simp add: createOrder_def shopStore_def order199_def completedFor_def
      findByOrderId_def newPayment_def scenarioPaise_def pendingPayment_def Let_def)
  from createOrder_gate [where toPaise = scenarioPaise and req = order199 and s = payStoreVerified and uid = "''u1''"
      and gw = "Some ''order_9''" and fresh = "''p9''"]
  have g: "createOrder scenarioPaise (Some ''order_9'') ''p9'' ''u1'' order199 payStoreVerified =
     (Inl AlreadyPurchased, payStoreVerified)"
    using h by blast
  from createOrder_gate [where toPaise = scenarioPaise and req = order199 and s = shopStore and uid = "''u1''"
      and gw = "Some ''order_1''" and fresh = "''p1''" and r = "(''order_1'', 19900, ''p1'')"
      and s' = "shopStore\<lparr>gatewayOrders := [(''order_1'', 19900)], payments := [pendingPayment]\<rparr>"]
    ok
  have e: "completedFor ''u1'' (or_appId order199) (payments shopStore) = []"
    by blast
  show ?thesis using h g ok e by blast
qed

section \<open>The identifiers of bids\<close>

text \<open>
  Distinct \<^verbatim>\<open>_id\<close>s are kept by the two methods: a bid that is replaced or appended
  gets a generated \<^verbatim>\<open>_id\<close>, and accepting changes statuses only.
\<close>

lemma addBid_ids_distinct:
  assumes d: "distinct (map bid_id (bids a))"
    and fresh: "fresh \<notin> set (map bid_id (bids a))"
    and ok: "addBid now fresh bd a = Inr a'"
  shows "distinct (map bid_id (bids a'))"
proof (cases "findIndex (\<lambda>b. developer b = bd_developer bd) (bids a)")
  case None
  with addBid_Inr [OF ok] d fresh show ?thesis by (simp add: newBid_def)
next
  case (Some i)
  from addBid_Inr [OF ok] Some
  have "map bid_id (bids a') = (map bid_id (bids a))[i := fresh]"
    by (simp add: map_update spreadBid_def)
  moreover have "distinct ((map bid_id (bids a))[i := fresh])"
    using d fresh by (intro distinct_list_update) auto
  ultimately show ?thesis by simp
qed

lemma acceptBid_ids:
  assumes "acceptBid now bidId a = Inr a'"
  shows "map bid_id (bids a') = map bid_id (bids a)"
proof -
  from assms obtain i where i: "findIndex (\<lambda>b. bid_id b = bidId) (bids a) = Some i"
    by (auto simp: acceptBid_def split: option.splits)
  from findIndex_Some [OF i] have il: "i < length (bids a)" by simp
  define bs where "bs = rejectOthers bidId (bids a)"
  have m: "map bid_id bs = map bid_id (bids a)"
    by (simp add: bs_def rejectOthers_def)
  from assms i have "save now (a\<lparr>bids := bs[i := (bs ! i)\<lparr>bid_status := Accepted\<rparr>],
      acceptedBid := Some (developer (bs ! i)), status := InProgress\<rparr>) = Inr a'"
    by (auto simp: acceptBid_def bs_def Let_def split: if_splits)
  from save_Inr [OF this] have "bids a' = bs[i := (bs ! i)\<lparr>bid_status := Accepted\<rparr>]"
    by simp
  then have "map bid_id (bids a') = (map bid_id bs)[i := bid_id (bs ! i)]"
    by (simp add: map_update)
  also have "\<dots> = map bid_id bs"
    using il by (metis list_update_id nth_map length_map m)
  finally show ?thesis using m by simp
qed

text \<open>
  The method succeeds on every valid document whose addressed bid is pending, and the
  handler succeeds only for the buyer of an open auction, with the method's result.
\<close>

lemma validBid_status [simp]: "validBid (b\<lparr>bid_status := st\<rparr>) = validBid b"
  by (simp add: validBid_def)

lemma acceptBid_succeeds:
  assumes fi: "findIndex (\<lambda>b. bid_id b = bidId) (bids a) = Some i"
    and pend: "bid_status (bids a ! i) = Pending"
    and val: "validate a"
  shows "\<exists>a'. acceptBid now bidId a = Inr a'"
proof -
  define bs where "bs = rejectOthers bidId (bids a)"
  from val have all: "\<forall>n<length (bids a). validBid (bids a ! n)"
    by (simp add: validate_def list_all_length)
  have len: "length bs = length (bids a)" by (simp add: bs_def rejectOthers_length)
  have vb: "\<forall>n<length bs. validBid (bs ! n)"
    using all by (simp add: bs_def rejectOthers_length rejectOthers_nth)
  have "list_all validBid (bs[i := (bs ! i)\<lparr>bid_status := Accepted\<rparr>])"
    unfolding list_all_length
  proof (intro allI impI)
    fix n assume "n < length (bs[i := (bs ! i)\<lparr>bid_status := Accepted\<rparr>])"
    then have n: "n < length bs" by simp
    with vb show "validBid (bs[i := (bs ! i)\<lparr>bid_status := Accepted\<rparr>] ! n)"
      by (cases "n = i") simp_all
  qed
  with val fi pend show ?thesis
    by (simp add: acceptBid_def save_def validate_def Let_def bs_def)
qed

lemma acceptBidHandler_Inr:
  "acceptBidHandler now found uid bidId = Inr a' \<Longrightarrow>
   \<exists>a. found = Some a \<and> buyer a = uid \<and> status a = Open \<and> acceptBid now bidId a = Inr a'"
  by (auto simp: acceptBidHandler_def split: option.splits if_splits sum.splits)

end
